theory Spec2Isabelle
  imports Complex_Main "HOL-Library.Sublist"
begin

section \<open>Synergy: the multi-participant streaming orchestrator (api/route.ts)\<close>

text \<open>
  A shallow embedding of \<^verbatim>\<open>api/route.ts\<close>: the system prompt builder, the two provider
  adapters and the \<^verbatim>\<open>POST\<close> handler with its participant loop.

  The JSON body is taken at the types of \<^verbatim>\<open>SynergyRequest\<close>, with the liberties the
  handler itself takes or suffers: \<^verbatim>\<open>participants\<close> may be absent (the handler tests
  it), \<^verbatim>\<open>messages\<close> may be absent or null (the handler then throws, and answers
  HTTP 500), and a participant's \<^verbatim>\<open>provider\<close> is whatever string the body carries (the
  handler compares it with two literals). An optional field is an \<open>option\<close>, where
  \<open>None\<close> stands for \<^verbatim>\<open>undefined\<close> and \<^verbatim>\<open>null\<close> alike; where the code's behaviour
  tells the two apart (the text of a TypeError, the rendering in a template string) the field
  is a \<open>nullable\<close>. Token counts are integers, temperatures are rationals that the code
  only passes on, strings are lists of bytes (UTF-8).

  The vendor SDKs are the environment: a call with a request either throws when it is
  made, or yields a finite list of stream events and then ends or throws.
  \<^verbatim>\<open>flush\<close> appends to the list of emitted events and does not fail: an event is plain
  data, and the client keeps the connection open (cancellation is outside the model).
  So nothing in the loop throws outside the inner \<^verbatim>\<open>try\<close>, and the \<^verbatim>\<open>catch\<close> inside
  the stream (the anonymous error event) has no branch here. The outermost
  \<^verbatim>\<open>catch\<close>, the HTTP 500, is a branch of \<open>POST\<close>.
\<close>

subsection \<open>JavaScript truthiness\<close>

definition truthy_str :: "string option \<Rightarrow> bool" where
  "truthy_str s = (case s of None \<Rightarrow> False | Some x \<Rightarrow> x \<noteq> [])"

definition truthy_bool :: "bool option \<Rightarrow> bool" where
  "truthy_bool b = (case b of None \<Rightarrow> False | Some x \<Rightarrow> x)"

text \<open>\<^verbatim>\<open>a || d\<close> on an optional string and on an optional number.\<close>

definition or_str :: "string option \<Rightarrow> string \<Rightarrow> string" where
  "or_str s d = (case s of None \<Rightarrow> d | Some x \<Rightarrow> if x = [] then d else x)"

definition or_num :: "int option \<Rightarrow> int \<Rightarrow> int" where
  "or_num n d = (case n of None \<Rightarrow> d | Some x \<Rightarrow> if x = 0 then d else x)"

subsection \<open>Data model\<close>

datatype 'a nullable = Undefined | Null | Present 'a

datatype role = User | Assistant

record attached_file =
  file_type :: "string option"
  file_content :: "string nullable"

text \<open>An inbound \<^verbatim>\<open>SynergyMessage\<close>.\<close>

record raw_message =
  msg_type :: string
  msg_content :: string
  msg_model :: "string option"
  msg_participant_name :: "string option"
  msg_attachedFiles :: "attached_file list option"

text \<open>An entry of \<^verbatim>\<open>processedMessages\<close> / \<^verbatim>\<open>conversationHistory\<close>.\<close>

record turn =
  role :: role
  content :: string
  attribution :: "string option"
  attachedFiles :: "attached_file list option"
  participant_name :: "string option"

record anthropic_opts =
  extendedThinking :: "bool option"
  budgetTokens :: "int option"

record reasoning_opts =
  effort :: "string option"
  summary :: "string option"

record openai_opts =
  reasoning :: "reasoning_opts option"

record participant =
  pid :: string
  name :: string
  provider :: string
  model :: string
  systemPrompt :: "string option"
  temperature :: "rat option"
  maxTokens :: "int option"
  openai :: "openai_opts option"
  anthropic :: "anthropic_opts option"

record request =
  messages :: "raw_message list nullable"
  participants :: "participant list option"
  openaiKey :: "string option"
  anthropicKey :: "string option"
  req_systemPrompt :: "string option"
  req_extendedThinking :: "bool option"
  req_budgetTokens :: "int option"
  prefillContent :: "string option"

text \<open>The events written to the stream by \<^verbatim>\<open>flush\<close>.\<close>

datatype sse_event =
    ChunkEv string string string string
  | ErrorEv "string option" string
  | CompleteEv

datatype http_response =
    JsonError nat string
  | EventStream "sse_event list"

subsection \<open>Provider requests, stream events and the environment\<close>

datatype content_block = TextBlock string | ImageBlock string string

datatype anthropic_content = Plain string | Blocks "content_block list"

record anthropic_message =
  am_role :: role
  am_content :: anthropic_content

record anthropic_req =
  ar_model :: string
  ar_max_tokens :: int
  ar_messages :: "anthropic_message list"
  ar_system :: string
  ar_temperature :: rat
  ar_thinking :: "int option"

record anthropic_delta =
  delta_type :: "string option"
  delta_text :: "string option"
  delta_thinking :: "string nullable"

record anthropic_chunk =
  chunk_type :: string
  chunk_delta :: "anthropic_delta option"

datatype openai_content = InputText string | OutputString string

record openai_message =
  om_role :: role
  om_content :: openai_content

record openai_config =
  oc_model :: string
  oc_max_output_tokens :: int
  oc_temperature :: rat
  oc_instructions :: string
  oc_input :: "openai_message list"
  oc_reasoning :: "reasoning_opts option"

record openai_event =
  event_type :: string
  event_delta :: "string option"

text \<open>
  What a streaming call does: it throws when made (\<open>CallThrows\<close>), or it hands out the
  listed events and then ends (\<open>None\<close>) or throws in the middle of the iteration.
  The string is \<^verbatim>\<open>error?.message || String(error)\<close> of the thrown value.
\<close>

datatype 'e provider_response = CallThrows string | Streamed "'e list" "string option"

type_synonym anthropic_client = "nat \<Rightarrow> anthropic_req \<Rightarrow> anthropic_chunk provider_response"
type_synonym openai_client = "nat \<Rightarrow> openai_config \<Rightarrow> openai_event provider_response"

text \<open>
  The vendors: a client is made from an API key, and answers the request of the call made
  for the participant at index \<open>i\<close> (two calls of one run need not behave alike).
\<close>

record env =
  anthropic_api :: "string \<Rightarrow> anthropic_client"
  openai_api :: "string \<Rightarrow> openai_client"

record orch_state =
  events :: "sse_event list"
  conversationHistory :: "turn list"

definition flush :: "sse_event \<Rightarrow> orch_state \<Rightarrow> orch_state" where
  "flush e st = st\<lparr>events := events st @ [e]\<rparr>"

subsection \<open>System prompt builder\<close>

fun join_with :: "string \<Rightarrow> string list \<Rightarrow> string" where
  "join_with sep [] = []"
| "join_with sep [x] = x"
| "join_with sep (x # y # ys) = x @ sep @ join_with sep (y # ys)"

definition nl :: string where
  "nl = [CHR 0x0A]"

definition generateSystemPrompt :: "participant \<Rightarrow> participant list \<Rightarrow> string option \<Rightarrow> string" where
  "generateSystemPrompt p otherParticipants baseSystemPrompt =
     (let otherNames = join_with '', '' (map (\<lambda>q. name q @ '' ('' @ model q @ '')'') otherParticipants)
      in ''CRITICAL IDENTITY INSTRUCTIONS:'' @ nl
       @ ''- You are '' @ name p @ '' running '' @ model p @ nl
       @ ''- You are NOT any of the other participants: '' @ otherNames @ nl
       @ ''- Always maintain your identity as '' @ name p @ nl
       @ ''- Never confuse yourself with responses from other participants'' @ nl
       @ nl
       @ ''MULTI-AI COLLABORATION:'' @ nl
       @ ''You are participating in a multi-AI conversation with: '' @ otherNames @ nl
       @ ''Each participant responds in sequence. You can see and reference other participants''
       @ [CHR 0x27] @ '' responses.'' @ nl
       @ nl
       @ (if truthy_str (systemPrompt p)
          then nl @ ''ADDITIONAL INSTRUCTIONS:'' @ nl @ or_str (systemPrompt p) [] else [])
       @ nl
       @ (if truthy_str baseSystemPrompt
          then nl @ ''BASE SYSTEM PROMPT:'' @ nl @ or_str baseSystemPrompt [] else []))"

subsection \<open>History mapping\<close>

text \<open>\<^verbatim>\<open>`[${msg.attribution}]: ${msg.content}`\<close> when the attribution is truthy.\<close>

definition attributed_content :: "turn \<Rightarrow> string" where
  "attributed_content t =
     (if truthy_str (attribution t)
      then ''['' @ or_str (attribution t) [] @ '']: '' @ content t
      else content t)"

text \<open>
  \<^verbatim>\<open>file.content.match(/^data:([^;]+);base64,(.+)$/)\<close>: the media type is the
  non-empty run up to the first semicolon, the data is the non-empty rest after
  \<^verbatim>\<open>;base64,\<close>, free of line terminators: the dot of a regular expression refuses
  LF, CR, U+2028 and U+2029, the last two being the bytes E2 80 A8 and E2 80 A9.
\<close>

fun has_line_terminator :: "string \<Rightarrow> bool" where
  "has_line_terminator [] = False"
| "has_line_terminator (c # cs) =
     (c = CHR 0x0A \<or> c = CHR 0x0D
      \<or> (c = CHR 0xE2 \<and> (take 2 cs = [CHR 0x80, CHR 0xA8] \<or> take 2 cs = [CHR 0x80, CHR 0xA9]))
      \<or> has_line_terminator cs)"

definition match_data_url :: "string \<Rightarrow> (string \<times> string) option" where
  "match_data_url s =
     (if take 5 s = ''data:'' then
        (let rest = drop 5 s;
             mediaType = takeWhile (\<lambda>c. c \<noteq> CHR '';'') rest;
             tl = dropWhile (\<lambda>c. c \<noteq> CHR '';'') rest;
             base64Data = drop 8 tl
         in if mediaType \<noteq> [] \<and> take 8 tl = '';base64,'' \<and> base64Data \<noteq> []
               \<and> \<not> has_line_terminator base64Data
            then Some (mediaType, base64Data) else None)
      else None)"

definition is_image :: "attached_file \<Rightarrow> bool" where
  "is_image f = (case file_type f of None \<Rightarrow> False | Some t \<Rightarrow> take 6 t = ''image/'')"

text \<open>The message of the TypeError for reading a property of \<^verbatim>\<open>undefined\<close> or \<^verbatim>\<open>null\<close>.\<close>

definition read_error :: "string \<Rightarrow> string \<Rightarrow> string" where
  "read_error what prop =
     ''Cannot read properties of '' @ what @ '' (reading '' @ [CHR 0x27] @ prop @ [CHR 0x27] @ '')''"

text \<open>
  The inner \<^verbatim>\<open>forEach\<close> over the attached files: the image blocks pushed, or the
  TypeError of \<^verbatim>\<open>file.content.match\<close> on an image file whose content is null or absent.
\<close>

fun image_blocks :: "attached_file list \<Rightarrow> string + content_block list" where
  "image_blocks [] = Inr []"
| "image_blocks (f # fs) =
     (if is_image f then
        (case file_content f of
           Undefined \<Rightarrow> Inl (read_error ''undefined'' ''match'')
         | Null \<Rightarrow> Inl (read_error ''null'' ''match'')
         | Present c \<Rightarrow>
             (case image_blocks fs of
                Inl e \<Rightarrow> Inl e
              | Inr bs \<Rightarrow>
                  (case match_data_url c of
                     None \<Rightarrow> Inr bs
                   | Some (mediaType, base64Data) \<Rightarrow> Inr (ImageBlock mediaType base64Data # bs))))
      else image_blocks fs)"

definition has_files :: "turn \<Rightarrow> bool" where
  "has_files t = (case attachedFiles t of None \<Rightarrow> False | Some fs \<Rightarrow> length fs > 0)"

definition anthropic_message_of :: "turn \<Rightarrow> string + anthropic_message" where
  "anthropic_message_of t =
     (if role t = User \<and> has_files t then
        (case image_blocks (case attachedFiles t of None \<Rightarrow> [] | Some fs \<Rightarrow> fs) of
           Inl e \<Rightarrow> Inl e
         | Inr bs \<Rightarrow>
             Inr \<lparr>am_role = User,
                  am_content = (if bs = [] then Plain (content t)
                                else Blocks (TextBlock (content t) # bs))\<rparr>)
      else Inr \<lparr>am_role = role t, am_content = Plain (attributed_content t)\<rparr>)"

fun anthropicMessages_of :: "turn list \<Rightarrow> string + anthropic_message list" where
  "anthropicMessages_of [] = Inr []"
| "anthropicMessages_of (t # ts) =
     (case anthropic_message_of t of
        Inl e \<Rightarrow> Inl e
      | Inr m \<Rightarrow> (case anthropicMessages_of ts of Inl e \<Rightarrow> Inl e | Inr ms \<Rightarrow> Inr (m # ms)))"

definition openai_message_of :: "turn \<Rightarrow> openai_message" where
  "openai_message_of t =
     (case role t of
        User \<Rightarrow> \<lparr>om_role = User, om_content = InputText (content t)\<rparr>
      | Assistant \<Rightarrow> \<lparr>om_role = Assistant, om_content = OutputString (attributed_content t)\<rparr>)"

definition openai_input_of :: "turn list \<Rightarrow> openai_message list" where
  "openai_input_of h = map openai_message_of h"

subsection \<open>Anthropic adapter\<close>

definition useThinking :: "participant \<Rightarrow> bool option \<Rightarrow> bool" where
  "useThinking p reqThinking =
     truthy_bool (case anthropic p of
                    None \<Rightarrow> reqThinking
                  | Some a \<Rightarrow> (case extendedThinking a of None \<Rightarrow> reqThinking | Some b \<Rightarrow> Some b))"

definition thinkBudget :: "participant \<Rightarrow> int option \<Rightarrow> int" where
  "thinkBudget p reqBudget =
     (let fallback = min (or_num reqBudget 2000) (or_num (maxTokens p) 32000 - 100)
      in case anthropic p of
           None \<Rightarrow> fallback
         | Some a \<Rightarrow> (case budgetTokens a of None \<Rightarrow> fallback | Some b \<Rightarrow> b))"

definition anthropicReq :: "participant \<Rightarrow> anthropic_message list \<Rightarrow> string \<Rightarrow> bool option \<Rightarrow> int option \<Rightarrow> anthropic_req" where
  "anthropicReq p msgs sys reqThinking reqBudget =
     (let req = \<lparr>ar_model = model p,
                 ar_max_tokens = or_num (maxTokens p) 64000,
                 ar_messages = msgs,
                 ar_system = sys,
                 ar_temperature = (case temperature p of None \<Rightarrow> 9 / 10 | Some t \<Rightarrow> t),
                 ar_thinking = None\<rparr>
      in if useThinking p reqThinking
         then req\<lparr>ar_thinking := Some (thinkBudget p reqBudget), ar_temperature := 1\<rparr>
         else req)"

definition chunk_of :: "participant \<Rightarrow> string \<Rightarrow> sse_event" where
  "chunk_of p c = ChunkEv (name p) (model p) (provider p) c"

definition delta_text_of :: "anthropic_chunk \<Rightarrow> string option" where
  "delta_text_of c = (case chunk_delta c of None \<Rightarrow> None | Some d \<Rightarrow> delta_text d)"

definition is_thinking_delta :: "anthropic_chunk \<Rightarrow> bool" where
  "is_thinking_delta c =
     (case chunk_delta c of None \<Rightarrow> False | Some d \<Rightarrow> delta_type d = Some ''thinking_delta'')"

definition thinking_text_of :: "anthropic_chunk \<Rightarrow> string" where
  "thinking_text_of c =
     (case chunk_delta c of
        None \<Rightarrow> ''undefined''
      | Some d \<Rightarrow>
          (case delta_thinking d of
             Undefined \<Rightarrow> ''undefined'' | Null \<Rightarrow> ''null'' | Present t \<Rightarrow> t))"

text \<open>The \<^verbatim>\<open>for await\<close> loop over the stream, on the accumulator and the state.\<close>

fun anthropic_consume :: "participant \<Rightarrow> anthropic_chunk list \<Rightarrow> string \<times> orch_state \<Rightarrow> string \<times> orch_state" where
  "anthropic_consume p [] acc = acc"
| "anthropic_consume p (c # cs) (fullResponse, st) =
     (if chunk_type c = ''content_block_delta'' \<and> truthy_str (delta_text_of c) then
        anthropic_consume p cs
          (fullResponse @ or_str (delta_text_of c) [],
           flush (chunk_of p (or_str (delta_text_of c) [])) st)
      else if chunk_type c = ''content_block_delta'' \<and> is_thinking_delta c then
        anthropic_consume p cs
          (fullResponse,
           flush (chunk_of p (''[THINKING]'' @ thinking_text_of c @ ''[/THINKING]'')) st)
      else anthropic_consume p cs (fullResponse, st))"

definition reply_turn :: "participant \<Rightarrow> string \<Rightarrow> turn" where
  "reply_turn p fullResponse =
     \<lparr>role = Assistant, content = fullResponse, attribution = Some (name p),
      attachedFiles = None, participant_name = Some (name p)\<rparr>"

definition push_reply :: "participant \<Rightarrow> string \<Rightarrow> orch_state \<Rightarrow> orch_state" where
  "push_reply p fullResponse st =
     st\<lparr>conversationHistory := conversationHistory st @ [reply_turn p fullResponse]\<rparr>"

text \<open>
  An adapter returns the state it leaves behind, and the error it threw, if any: what
  was flushed before a throw stays flushed.
\<close>

text \<open>Lines 77 to 124 of the adapter: the request it builds, or the error of the mapping.\<close>

definition anthropic_request ::
  "participant \<Rightarrow> turn list \<Rightarrow> string \<Rightarrow> string option \<Rightarrow> bool \<Rightarrow> bool option \<Rightarrow> int option
     \<Rightarrow> string + anthropic_req" where
  "anthropic_request p h sys prefill isLastParticipant reqThinking reqBudget =
     (case anthropicMessages_of h of
        Inl e \<Rightarrow> Inl e
      | Inr mapped \<Rightarrow>
          Inr (anthropicReq p
                 (if truthy_str prefill \<and> isLastParticipant
                  then mapped @ [\<lparr>am_role = Assistant, am_content = Plain (or_str prefill [])\<rparr>]
                  else mapped)
                 sys reqThinking reqBudget))"

definition handleAnthropicParticipant ::
  "participant \<Rightarrow> (anthropic_req \<Rightarrow> anthropic_chunk provider_response) \<Rightarrow> string \<Rightarrow> string option
     \<Rightarrow> bool \<Rightarrow> bool option \<Rightarrow> int option \<Rightarrow> orch_state \<Rightarrow> string option \<times> orch_state" where
  "handleAnthropicParticipant p client sys prefill isLastParticipant reqThinking reqBudget st =
     (case anthropic_request p (conversationHistory st) sys prefill isLastParticipant
             reqThinking reqBudget of
        Inl e \<Rightarrow> (Some e, st)
      | Inr req \<Rightarrow>
          (case client req of
             CallThrows e \<Rightarrow> (Some e, st)
           | Streamed chunks failure \<Rightarrow>
               (let st1 = (if truthy_str prefill \<and> isLastParticipant
                           then flush (chunk_of p (or_str prefill [])) st else st);
                    (fullResponse, st2) = anthropic_consume p chunks (or_str prefill [], st1)
                in case failure of
                     Some e \<Rightarrow> (Some e, st2)
                   | None \<Rightarrow> (None, push_reply p fullResponse st2))))"

subsection \<open>OpenAI adapter\<close>

definition openaiConfig :: "participant \<Rightarrow> openai_message list \<Rightarrow> string \<Rightarrow> openai_config" where
  "openaiConfig p inp sys =
     \<lparr>oc_model = model p,
      oc_max_output_tokens = or_num (maxTokens p) 16200,
      oc_temperature = (case temperature p of None \<Rightarrow> 9 / 10 | Some t \<Rightarrow> t),
      oc_instructions = sys,
      oc_input = inp,
      oc_reasoning = (case openai p of None \<Rightarrow> None | Some opts \<Rightarrow> reasoning opts)\<rparr>"

fun openai_consume :: "participant \<Rightarrow> openai_event list \<Rightarrow> string \<times> orch_state \<Rightarrow> string \<times> orch_state" where
  "openai_consume p [] acc = acc"
| "openai_consume p (e # es) (fullResponse, st) =
     (if event_type e = ''response.output_text.delta'' then
        openai_consume p es
          (fullResponse @ or_str (event_delta e) [],
           flush (chunk_of p (or_str (event_delta e) [])) st)
      else openai_consume p es (fullResponse, st))"

text \<open>
  The source's signature: \<^verbatim>\<open>prefillContent\<close> and \<^verbatim>\<open>isLastParticipant\<close> are
  parameters of the adapter, and its body never reads them.
\<close>

definition handleOpenAIParticipant ::
  "participant \<Rightarrow> (openai_config \<Rightarrow> openai_event provider_response) \<Rightarrow> string \<Rightarrow> string option
     \<Rightarrow> bool \<Rightarrow> orch_state \<Rightarrow> string option \<times> orch_state" where
  "handleOpenAIParticipant p client sys prefill isLastParticipant st =
     (case client (openaiConfig p (openai_input_of (conversationHistory st)) sys) of
        CallThrows e \<Rightarrow> (Some e, st)
      | Streamed evs failure \<Rightarrow>
          (let (fullResponse, st1) = openai_consume p evs ([], st)
           in case failure of
                Some e \<Rightarrow> (Some e, st1)
              | None \<Rightarrow> (None, push_reply p fullResponse st1)))"

subsection \<open>The POST handler\<close>

definition needsOpenAI :: "participant list \<Rightarrow> bool" where
  "needsOpenAI ps = list_ex (\<lambda>p. provider p = ''openai'') ps"

definition needsAnthropic :: "participant list \<Rightarrow> bool" where
  "needsAnthropic ps = list_ex (\<lambda>p. provider p = ''anthropic'') ps"

text \<open>The three early returns with their messages; otherwise the participants.\<close>

definition validate :: "request \<Rightarrow> string + participant list" where
  "validate req =
     (case participants req of
        None \<Rightarrow> Inl ''At least 1 participant required''
      | Some ps \<Rightarrow>
          if length ps < 1 then Inl ''At least 1 participant required''
          else if needsOpenAI ps \<and> \<not> truthy_str (openaiKey req)
            then Inl ''OpenAI API key is required for OpenAI models''
          else if needsAnthropic ps \<and> \<not> truthy_str (anthropicKey req)
            then Inl ''Anthropic API key is required for Anthropic models''
          else Inr ps)"

definition process_message :: "raw_message \<Rightarrow> turn" where
  "process_message m =
     (if msg_type m = ''user'' then
        \<lparr>role = User, content = msg_content m, attribution = None,
         attachedFiles = msg_attachedFiles m, participant_name = None\<rparr>
      else
        \<lparr>role = Assistant, content = msg_content m,
         attribution = Some (if truthy_str (msg_participant_name m) then or_str (msg_participant_name m) []
                             else if truthy_str (msg_model m) then or_str (msg_model m) []
                             else ''Assistant''),
         attachedFiles = msg_attachedFiles m, participant_name = None\<rparr>)"

text \<open>The loop that fills \<^verbatim>\<open>processedMessages\<close>, on the array \<^verbatim>\<open>messages\<close>.\<close>

definition processedMessages :: "raw_message list \<Rightarrow> turn list" where
  "processedMessages msgs =
     map process_message
       (filter (\<lambda>m. msg_type m = ''user'' \<or> msg_type m = ''assistant'') msgs)"

text \<open>What the stream's \<^verbatim>\<open>start\<close> closure captures.\<close>

record run_ctx =
  ctx_participants :: "participant list"
  ctx_openai :: "openai_client option"
  ctx_anthropic :: "anthropic_client option"
  ctx_systemPrompt :: "string option"
  ctx_extendedThinking :: "bool option"
  ctx_budgetTokens :: "int option"
  ctx_prefillContent :: "string option"

definition run_ctx_of :: "env \<Rightarrow> request \<Rightarrow> participant list \<Rightarrow> run_ctx" where
  "run_ctx_of e req ps =
     \<lparr>ctx_participants = ps,
      ctx_openai = (if needsOpenAI ps then map_option (openai_api e) (openaiKey req) else None),
      ctx_anthropic = (if needsAnthropic ps then map_option (anthropic_api e) (anthropicKey req) else None),
      ctx_systemPrompt = req_systemPrompt req,
      ctx_extendedThinking = req_extendedThinking req,
      ctx_budgetTokens = req_budgetTokens req,
      ctx_prefillContent = prefillContent req\<rparr>"

text \<open>The inner \<^verbatim>\<open>try\<close> block of the loop body: the dispatch to an adapter.\<close>

definition dispatch :: "run_ctx \<Rightarrow> nat \<Rightarrow> orch_state \<Rightarrow> string option \<times> orch_state" where
  "dispatch ctx i st =
     (let ps = ctx_participants ctx;
          p = ps ! i;
          otherParticipants = take i ps @ drop (Suc i) ps;
          participantSystemPrompt = generateSystemPrompt p otherParticipants (ctx_systemPrompt ctx);
          isLast = (i = length ps - 1)
      in if provider p = ''anthropic'' \<and> ctx_anthropic ctx \<noteq> None then
           (case ctx_anthropic ctx of
              None \<Rightarrow> (None, st)
            | Some client \<Rightarrow>
                handleAnthropicParticipant p (client i) participantSystemPrompt
                  (ctx_prefillContent ctx) isLast (ctx_extendedThinking ctx) (ctx_budgetTokens ctx) st)
         else if provider p = ''openai'' \<and> ctx_openai ctx \<noteq> None then
           (case ctx_openai ctx of
              None \<Rightarrow> (None, st)
            | Some client \<Rightarrow>
                handleOpenAIParticipant p (client i) participantSystemPrompt
                  (ctx_prefillContent ctx) isLast st)
         else (None, st))"

definition error_message :: "participant \<Rightarrow> string \<Rightarrow> string" where
  "error_message p e = [CHR 0xE2, CHR 0x9D, CHR 0x8C] @ '' '' @ name p @ '' error: '' @ e"

text \<open>One iteration of the loop: the dispatch and the \<^verbatim>\<open>catch\<close> around it.\<close>

definition participant_step :: "run_ctx \<Rightarrow> nat \<Rightarrow> orch_state \<Rightarrow> orch_state" where
  "participant_step ctx i st =
     (case dispatch ctx i st of
        (None, st') \<Rightarrow> st'
      | (Some e, st') \<Rightarrow>
          flush (ErrorEv (Some (name (ctx_participants ctx ! i)))
                         (error_message (ctx_participants ctx ! i) e)) st')"

function run_participants :: "run_ctx \<Rightarrow> nat \<Rightarrow> orch_state \<Rightarrow> orch_state" where
  "run_participants ctx i st =
     (if i < length (ctx_participants ctx)
      then run_participants ctx (i + 1) (participant_step ctx i st)
      else st)"
  by pat_completeness auto
termination
  by (relation "measure (\<lambda>(ctx, i, st). length (ctx_participants ctx) - i)") auto

declare run_participants.simps [simp del]

text \<open>The stream's \<^verbatim>\<open>start\<close>: the loop, then the completion event.\<close>

definition start :: "run_ctx \<Rightarrow> turn list \<Rightarrow> sse_event list" where
  "start ctx processed =
     events (flush CompleteEv
               (run_participants ctx 0 \<lparr>events = [], conversationHistory = processed\<rparr>))"

text \<open>
  The handler. After the three checks, \<^verbatim>\<open>messages.filter\<close> on a body without the
  array throws a TypeError, which the outermost \<^verbatim>\<open>catch\<close> answers with HTTP 500 and
  the error's message; no stream is made.
\<close>

definition POST :: "env \<Rightarrow> request \<Rightarrow> http_response" where
  "POST e req =
     (case validate req of
        Inl msg \<Rightarrow> JsonError 400 msg
      | Inr ps \<Rightarrow>
          (case messages req of
             Undefined \<Rightarrow> JsonError 500 (read_error ''undefined'' ''filter'')
           | Null \<Rightarrow> JsonError 500 (read_error ''null'' ''filter'')
           | Present msgs \<Rightarrow>
               EventStream (start (run_ctx_of e req ps) (processedMessages msgs))))"

subsection \<open>Notions used by the statements\<close>

text \<open>
  The state in which the loop reaches index \<open>i\<close>, and the history it hands to the
  adapter there. The adapter of index \<open>i\<close> is invoked when the dispatch takes one of its two
  branches, and it has completed when it was invoked and did not throw.
\<close>

definition initial_state :: "turn list \<Rightarrow> orch_state" where
  "initial_state processed = \<lparr>events = [], conversationHistory = processed\<rparr>"

definition state_before :: "run_ctx \<Rightarrow> turn list \<Rightarrow> nat \<Rightarrow> orch_state" where
  "state_before ctx processed i =
     foldl (\<lambda>st j. participant_step ctx j st) (initial_state processed) [0..<i]"

definition history_passed :: "run_ctx \<Rightarrow> turn list \<Rightarrow> nat \<Rightarrow> turn list" where
  "history_passed ctx processed i = conversationHistory (state_before ctx processed i)"

definition invoked :: "run_ctx \<Rightarrow> nat \<Rightarrow> bool" where
  "invoked ctx i =
     (let p = ctx_participants ctx ! i
      in provider p = ''anthropic'' \<and> ctx_anthropic ctx \<noteq> None
         \<or> provider p = ''openai'' \<and> ctx_openai ctx \<noteq> None)"

definition completed :: "run_ctx \<Rightarrow> turn list \<Rightarrow> nat \<Rightarrow> bool" where
  "completed ctx processed i =
     (invoked ctx i \<and> fst (dispatch ctx i (state_before ctx processed i)) = None)"

definition completed_before :: "run_ctx \<Rightarrow> turn list \<Rightarrow> nat \<Rightarrow> nat list" where
  "completed_before ctx processed i = filter (completed ctx processed) [0..<i]"


definition anthropic_text :: "anthropic_chunk list \<Rightarrow> string" where
  "anthropic_text cs =
     concat (map (\<lambda>c. if chunk_type c = ''content_block_delta'' \<and> truthy_str (delta_text_of c)
                       then or_str (delta_text_of c) [] else []) cs)"

definition anthropic_events :: "participant \<Rightarrow> anthropic_chunk list \<Rightarrow> sse_event list" where
  "anthropic_events p cs =
     concat (map (\<lambda>c. if chunk_type c = ''content_block_delta'' \<and> truthy_str (delta_text_of c)
                       then [chunk_of p (or_str (delta_text_of c) [])]
                       else if chunk_type c = ''content_block_delta'' \<and> is_thinking_delta c
                       then [chunk_of p (''[THINKING]'' @ thinking_text_of c @ ''[/THINKING]'')]
                       else []) cs)"

definition openai_text :: "openai_event list \<Rightarrow> string" where
  "openai_text es =
     concat (map (\<lambda>e. if event_type e = ''response.output_text.delta''
                       then or_str (event_delta e) [] else []) es)"

definition openai_events :: "participant \<Rightarrow> openai_event list \<Rightarrow> sse_event list" where
  "openai_events p es =
     concat (map (\<lambda>e. if event_type e = ''response.output_text.delta''
                       then [chunk_of p (or_str (event_delta e) [])] else []) es)"

subsection \<open>The spec's wording of three conditions\<close>

text \<open>
  The rejection condition in the spec's words: no participants, or a provider in use
  without its key. A key that is the empty string is no key.
\<close>

definition spec_rejected :: "request \<Rightarrow> bool" where
  "spec_rejected req =
     (case participants req of
        None \<Rightarrow> True
      | Some ps \<Rightarrow>
          ps = []
          \<or> (\<exists>p \<in> set ps. provider p = ''openai'') \<and> \<not> truthy_str (openaiKey req)
          \<or> (\<exists>p \<in> set ps. provider p = ''anthropic'') \<and> \<not> truthy_str (anthropicKey req))"

text \<open>
  The budget in the spec's words: the participant's own value when set, otherwise the
  lesser of the fixed fallback (2000) and the participant's token ceiling less the
  reserve (100).
\<close>

definition spec_thinkBudget :: "participant \<Rightarrow> int" where
  "spec_thinkBudget p =
     (case Option.bind (anthropic p) budgetTokens of
        Some b \<Rightarrow> b
      | None \<Rightarrow> min 2000 (or_num (maxTokens p) 32000 - 100))"

text \<open>
  The text sent for a turn in the spec's words: the bracketed attribution in front of an
  attributed assistant turn, unless the turn is the current participant's own.
\<close>

definition spec_sent_text :: "participant \<Rightarrow> turn \<Rightarrow> string" where
  "spec_sent_text p t =
     (if role t = Assistant \<and> truthy_str (attribution t) \<and> attribution t \<noteq> Some (name p)
      then ''['' @ or_str (attribution t) [] @ '']: '' @ content t
      else content t)"

subsection \<open>Concrete participants, requests and vendors\<close>

definition gpt :: participant where
  "gpt = \<lparr>pid = ''gpt-1'', name = ''GPT-5'', provider = ''openai'', model = ''gpt-5'',
          systemPrompt = None, temperature = Some 1, maxTokens = Some 30000,
          openai = None, anthropic = None\<rparr>"

definition claude :: participant where
  "claude = \<lparr>pid = ''claude-1'', name = ''Claude'', provider = ''anthropic'',
             model = ''claude-sonnet-4-5'', systemPrompt = None, temperature = Some (1 / 2),
             maxTokens = Some 64000, openai = None, anthropic = None\<rparr>"

text \<open>
A participant whose provider is neither of the two the handler knows.
\<close>

definition gemini :: participant where
  "gemini = \<lparr>pid = ''gem-1'', name = ''Gemini'', provider = ''google'', model = ''gemini-pro'',
             systemPrompt = None, temperature = None, maxTokens = None,
             openai = None, anthropic = None\<rparr>"

definition hello :: raw_message where
  "hello = \<lparr>msg_type = ''user'', msg_content = ''hello'', msg_model = None,
            msg_participant_name = None, msg_attachedFiles = None\<rparr>"

definition base_req :: request where
  "base_req = \<lparr>messages = Present [hello], participants = None, openaiKey = None, anthropicKey = None,
               req_systemPrompt = None, req_extendedThinking = None, req_budgetTokens = None,
               prefillContent = None\<rparr>"

definition duo_req :: request where
  "duo_req = base_req\<lparr>participants := Some [gpt, claude],
                       openaiKey := Some ''sk'', anthropicKey := Some ''ak''\<rparr>"

definition prefill_req :: "participant list \<Rightarrow> request" where
  "prefill_req ps = base_req\<lparr>participants := Some ps, openaiKey := Some ''sk'',
                             anthropicKey := Some ''ak'', prefillContent := Some ''PRE''\<rparr>"

definition text_delta :: "string \<Rightarrow> openai_event" where
  "text_delta s = \<lparr>event_type = ''response.output_text.delta'', event_delta = Some s\<rparr>"

text \<open>
Vendors that answer every call with the single text ``hi''.
\<close>

definition hi_env :: env where
  "hi_env =
     \<lparr>anthropic_api = (\<lambda>key i r.
        Streamed [\<lparr>chunk_type = ''content_block_delta'',
                   chunk_delta = Some \<lparr>delta_type = Some ''text_delta'', delta_text = Some ''hi'',
                                        delta_thinking = Undefined\<rparr>\<rparr>] None),
      openai_api = (\<lambda>key i c. Streamed [text_delta ''hi''] None)\<rparr>"



text \<open>
Vendors whose OpenAI side answers only a request whose input is the one user turn.
\<close>

definition strict_env :: env where
  "strict_env =
     hi_env\<lparr>openai_api := (\<lambda>key i c.
        if oc_input c = [\<lparr>om_role = User, om_content = InputText ''hello''\<rparr>]
        then Streamed [text_delta ''hi''] None
        else CallThrows ''unexpected input'')\<rparr>"

section \<open>Properties\<close>

subsection \<open>Auxiliary facts\<close>

lemma events_flush [simp]: "events (flush e st) = events st @ [e]"
  by (simp add: flush_def)

lemma history_flush [simp]: "conversationHistory (flush e st) = conversationHistory st"
  by (simp add: flush_def)

lemma events_push_reply [simp]: "events (push_reply p r st) = events st"
  by (simp add: push_reply_def)

lemma history_push_reply [simp]:
  "conversationHistory (push_reply p r st) = conversationHistory st @ [reply_turn p r]"
  by (simp add: push_reply_def)

lemma anthropic_consume_eq:
  "anthropic_consume p cs (acc, st) =
     (acc @ anthropic_text cs, st\<lparr>events := events st @ anthropic_events p cs\<rparr>)"
proof (induction cs arbitrary: acc st)
  case Nil
  show ?case by (simp add: anthropic_text_def anthropic_events_def)
next
  case (Cons c cs)
  show ?case
    by (simp add: Cons.IH flush_def) (simp add: anthropic_text_def anthropic_events_def)
qed

lemma openai_consume_eq:
  "openai_consume p es (acc, st) =
     (acc @ openai_text es, st\<lparr>events := events st @ openai_events p es\<rparr>)"
proof (induction es arbitrary: acc st)
  case Nil
  show ?case by (simp add: openai_text_def openai_events_def)
next
  case (Cons e es)
  show ?case
    by (simp add: Cons.IH flush_def) (simp add: openai_text_def openai_events_def)
qed




lemma handleAnthropic_history:
  assumes "handleAnthropicParticipant p client sys prefill isLast rt rb st = (thr, st')"
  shows "(thr \<noteq> None \<longrightarrow> conversationHistory st' = conversationHistory st)
       \<and> (thr = None \<longrightarrow> (\<exists>r. conversationHistory st' = conversationHistory st @ [reply_turn p r]))"
  using assms
  by (auto simp: handleAnthropicParticipant_def anthropic_consume_eq Let_def
           split: sum.splits provider_response.splits option.splits if_splits)


lemma handleOpenAI_history:
  assumes "handleOpenAIParticipant p client sys prefill isLast st = (thr, st')"
  shows "(thr \<noteq> None \<longrightarrow> conversationHistory st' = conversationHistory st)
       \<and> (thr = None \<longrightarrow> (\<exists>r. conversationHistory st' = conversationHistory st @ [reply_turn p r]))"
  using assms
  by (auto simp: handleOpenAIParticipant_def openai_consume_eq Let_def
           split: provider_response.splits option.splits)

lemma dispatch_not_invoked: "\<not> invoked ctx i \<Longrightarrow> dispatch ctx i st = (None, st)"
  by (auto simp: dispatch_def invoked_def Let_def)


lemma dispatch_history:
  assumes "dispatch ctx i st = (thr, st')"
  shows "(thr \<noteq> None \<or> \<not> invoked ctx i \<longrightarrow> conversationHistory st' = conversationHistory st)
       \<and> (thr = None \<and> invoked ctx i \<longrightarrow>
            (\<exists>r. conversationHistory st' = conversationHistory st @ [reply_turn (ctx_participants ctx ! i) r]))"
proof (cases "invoked ctx i")
  case False
  with assms show ?thesis by (simp add: dispatch_not_invoked)
next
  case True
  with assms show ?thesis
    by (auto simp: dispatch_def Let_def invoked_def split: if_splits option.splits
             dest: handleAnthropic_history handleOpenAI_history)
qed


lemma step_history:
  "conversationHistory (participant_step ctx i st) = conversationHistory (snd (dispatch ctx i st))"
  by (cases "dispatch ctx i st") (auto simp: participant_step_def split: option.splits)

lemma run_participants_foldl:
  "i \<le> length (ctx_participants ctx) \<Longrightarrow>
   run_participants ctx i st =
     foldl (\<lambda>s j. participant_step ctx j s) st [i..<length (ctx_participants ctx)]"
proof (induction ctx i st rule: run_participants.induct)
  case (1 ctx i st)
  show ?case
  proof (cases "i < length (ctx_participants ctx)")
    case True
    then have "run_participants ctx i st = run_participants ctx (i + 1) (participant_step ctx i st)"
      by (subst run_participants.simps) simp
    also have "\<dots> = foldl (\<lambda>s j. participant_step ctx j s) (participant_step ctx i st)
                       [i + 1..<length (ctx_participants ctx)]"
      using True by (intro "1.IH") simp_all
    also have "\<dots> = foldl (\<lambda>s j. participant_step ctx j s) st [i..<length (ctx_participants ctx)]"
      using True by (simp add: upt_conv_Cons)
    finally show ?thesis .
  next
    case False
    with "1.prems" show ?thesis by (subst run_participants.simps) simp
  qed
qed

lemma state_before_Suc:
  "state_before ctx processed (Suc i) = participant_step ctx i (state_before ctx processed i)"
  by (simp add: state_before_def)

lemma state_before_0: "state_before ctx processed 0 = initial_state processed"
  by (simp add: state_before_def)




lemma ctx_participants_run_ctx_of [simp]: "ctx_participants (run_ctx_of e req ps) = ps"
  by (simp add: run_ctx_of_def)

lemma validate_Inr_iff:
  "validate req = Inr ps \<longleftrightarrow>
     participants req = Some ps \<and> ps \<noteq> []
     \<and> (needsOpenAI ps \<longrightarrow> truthy_str (openaiKey req))
     \<and> (needsAnthropic ps \<longrightarrow> truthy_str (anthropicKey req))"
  by (auto simp: validate_def split: option.splits)

lemma history_step:
  "history_passed ctx processed (Suc i) =
     conversationHistory (snd (dispatch ctx i (state_before ctx processed i)))"
  by (simp add: history_passed_def state_before_Suc step_history)

lemma history_step_completed:
  assumes "completed ctx processed i"
  shows "\<exists>r. history_passed ctx processed (Suc i) =
              history_passed ctx processed i @ [reply_turn (ctx_participants ctx ! i) r]"
proof -
  obtain thr st' where d: "dispatch ctx i (state_before ctx processed i) = (thr, st')"
    by (cases "dispatch ctx i (state_before ctx processed i)")
  with assms have "thr = None" "invoked ctx i" by (simp_all add: completed_def)
  moreover have "history_passed ctx processed (Suc i) = conversationHistory st'"
    using d by (simp add: history_step)
  ultimately show ?thesis
    using dispatch_history [OF d] by (simp add: history_passed_def)
qed

lemma history_step_not_completed:
  assumes "\<not> completed ctx processed i"
  shows "history_passed ctx processed (Suc i) = history_passed ctx processed i"
proof -
  obtain thr st' where d: "dispatch ctx i (state_before ctx processed i) = (thr, st')"
    by (cases "dispatch ctx i (state_before ctx processed i)")
  with assms have "thr \<noteq> None \<or> \<not> invoked ctx i" by (auto simp: completed_def)
  moreover have "history_passed ctx processed (Suc i) = conversationHistory st'"
    using d by (simp add: history_step)
  ultimately show ?thesis
    using dispatch_history [OF d] by (auto simp: history_passed_def)
qed

lemma history_shape:
  "\<exists>texts. length texts = length (completed_before ctx processed i)
     \<and> history_passed ctx processed i =
         processed @ map2 (\<lambda>j. reply_turn (ctx_participants ctx ! j))
                          (completed_before ctx processed i) texts"
proof (induction i)
  case 0
  show ?case
    by (simp add: completed_before_def history_passed_def state_before_0 initial_state_def)
next
  case (Suc i)
  then obtain texts where len: "length texts = length (completed_before ctx processed i)"
    and h: "history_passed ctx processed i =
              processed @ map2 (\<lambda>j. reply_turn (ctx_participants ctx ! j))
                               (completed_before ctx processed i) texts"
    by blast
  show ?case
  proof (cases "completed ctx processed i")
    case True
    from history_step_completed [OF True] obtain r where
      r: "history_passed ctx processed (Suc i) =
            history_passed ctx processed i @ [reply_turn (ctx_participants ctx ! i) r]" by blast
    have cb: "completed_before ctx processed (Suc i) = completed_before ctx processed i @ [i]"
      using True by (simp add: completed_before_def)
    have "length (texts @ [r]) = length (completed_before ctx processed (Suc i))"
      using len cb by simp
    moreover have "history_passed ctx processed (Suc i) =
        processed @ map2 (\<lambda>j. reply_turn (ctx_participants ctx ! j))
                         (completed_before ctx processed (Suc i)) (texts @ [r])"
      using r h len cb by simp
    ultimately show ?thesis by blast
  next
    case False
    have cb: "completed_before ctx processed (Suc i) = completed_before ctx processed i"
      using False by (simp add: completed_before_def)
    from history_step_not_completed [OF False] h len cb show ?thesis by auto
  qed
qed




lemma needs_without_other:
  assumes "i < length ps" "provider (ps ! i) \<noteq> ''openai''" "provider (ps ! i) \<noteq> ''anthropic''"
  shows "needsOpenAI (take i ps @ drop (Suc i) ps) = needsOpenAI ps"
    and "needsAnthropic (take i ps @ drop (Suc i) ps) = needsAnthropic ps"
proof -
  have ps: "ps = take i ps @ ps ! i # drop (Suc i) ps"
    using assms(1) by (rule id_take_nth_drop)
  have "needsOpenAI ps = needsOpenAI (take i ps @ ps ! i # drop (Suc i) ps)"
    using ps by simp
  then show "needsOpenAI (take i ps @ drop (Suc i) ps) = needsOpenAI ps"
    using assms(2) by (simp add: needsOpenAI_def)
  have "needsAnthropic ps = needsAnthropic (take i ps @ ps ! i # drop (Suc i) ps)"
    using ps by simp
  then show "needsAnthropic (take i ps @ drop (Suc i) ps) = needsAnthropic ps"
    using assms(3) by (simp add: needsAnthropic_def)
qed

lemmas example_defs =
  duo_req_def base_req_def gpt_def claude_def hello_def hi_env_def text_delta_def

lemmas run_defs =
  run_ctx_of_def dispatch_def participant_step_def handleOpenAIParticipant_def
  handleAnthropicParticipant_def needsOpenAI_def needsAnthropic_def truthy_str_def or_str_def
  initial_state_def processedMessages_def process_message_def openaiConfig_def
  push_reply_def flush_def chunk_of_def

lemma anthropicMessages_nth:
  "anthropicMessages_of h = Inr ms \<Longrightarrow>
     length ms = length h \<and> (\<forall>k < length h. anthropic_message_of (h ! k) = Inr (ms ! k))"
proof (induction h arbitrary: ms)
  case Nil
  then show ?case by simp
next
  case (Cons t ts)
  from Cons.prems obtain m ms' where m: "anthropic_message_of t = Inr m"
    and ms': "anthropicMessages_of ts = Inr ms'" and ms: "ms = m # ms'"
    by (auto split: sum.splits)
  from Cons.IH [OF ms'] have len: "length ms' = length ts"
    and nth: "\<forall>k < length ts. anthropic_message_of (ts ! k) = Inr (ms' ! k)" by simp_all
  show ?case
  proof (intro conjI allI impI)
    show "length ms = length (t # ts)" using len ms by simp
  next
    fix k assume "k < length (t # ts)"
    then show "anthropic_message_of ((t # ts) ! k) = Inr (ms ! k)"
      using m nth ms by (cases k) simp_all
  qed
qed

lemma anthropic_message_assistant:
  "role t = Assistant \<Longrightarrow>
   anthropic_message_of t = Inr \<lparr>am_role = Assistant, am_content = Plain (attributed_content t)\<rparr>"
  by (simp add: anthropic_message_of_def)

lemma anthropic_message_user:
  assumes "role t = User" "attribution t = None" "anthropic_message_of t = Inr m"
  shows "am_role m = User
       \<and> (am_content m = Plain (content t) \<or> (\<exists>bs. am_content m = Blocks (TextBlock (content t) # bs)))"
  using assms
  by (auto simp: anthropic_message_of_def attributed_content_def truthy_str_def
           split: if_splits sum.splits)

lemma user_turns_unattributed:
  assumes "t \<in> set (history_passed ctx (processedMessages msgs) i)" "role t = User"
  shows "attribution t = None"
proof -
  from history_shape [of ctx "processedMessages msgs" i] obtain texts where
    h: "history_passed ctx (processedMessages msgs) i =
          processedMessages msgs @ map2 (\<lambda>j. reply_turn (ctx_participants ctx ! j))
                          (completed_before ctx (processedMessages msgs) i) texts" by blast
  from assms(1) h have "t \<in> set (processedMessages msgs)
      \<or> t \<in> set (map2 (\<lambda>j. reply_turn (ctx_participants ctx ! j))
                       (completed_before ctx (processedMessages msgs) i) texts)"
    by (metis Un_iff set_append)
  then show ?thesis
  proof (elim disjE)
    assume "t \<in> set (processedMessages msgs)"
    with assms(2) show ?thesis
      by (auto simp: processedMessages_def process_message_def split: if_splits)
  next
    assume "t \<in> set (map2 (\<lambda>j. reply_turn (ctx_participants ctx ! j))
                       (completed_before ctx (processedMessages msgs) i) texts)"
    then have "role t = Assistant" by (auto simp: reply_turn_def)
    with assms(2) show ?thesis by simp
  qed
qed

lemma ar_messages_anthropicReq [simp]:
  "ar_messages (anthropicReq p msgs sys reqThinking reqBudget) = msgs"
  by (simp add: anthropicReq_def Let_def)

lemma anthropic_request_not_last:
  "anthropic_request p h sys prefill False reqThinking reqBudget =
   anthropic_request p h sys None False reqThinking reqBudget"
  by (simp add: anthropic_request_def split: sum.splits)

subsection \<open>The claims\<close>

text \<open>
  C1, where the code departs from it. The OpenAI adapter does the same whatever prefill
  and position it is given. At the failing input, a single OpenAI participant (hence the
  last one) in a request with prefill \<^verbatim>\<open>PRE\<close>, the vendor sees an input holding the user
  turn alone, and the first chunk emitted is the vendor's text, not the prefill. The same
  request with an Anthropic participant has the prefill as its first chunk.
\<close>

theorem openai_last_ignores_prefill:
  "handleOpenAIParticipant p client sys prefill isLast st
     = handleOpenAIParticipant p client sys None False st
   \<and> POST strict_env (prefill_req [gpt])
     = EventStream [ChunkEv ''GPT-5'' ''gpt-5'' ''openai'' ''hi'', CompleteEv]
   \<and> POST strict_env (prefill_req [claude])
     = EventStream [ChunkEv ''Claude'' ''claude-sonnet-4-5'' ''anthropic'' ''PRE'',
                    ChunkEv ''Claude'' ''claude-sonnet-4-5'' ''anthropic'' ''hi'', CompleteEv]"
proof (intro conjI)
  show "handleOpenAIParticipant p client sys prefill isLast st
          = handleOpenAIParticipant p client sys None False st"
    by (simp add: handleOpenAIParticipant_def)
next
  show "POST strict_env (prefill_req [gpt])
          = EventStream [ChunkEv ''GPT-5'' ''gpt-5'' ''openai'' ''hi'', CompleteEv]"
    by (simp add: POST_def validate_def start_def run_participants_foldl prefill_req_def
                  strict_env_def run_defs example_defs openai_input_of_def openai_message_of_def)
next
  show "POST strict_env (prefill_req [claude])
          = EventStream [ChunkEv ''Claude'' ''claude-sonnet-4-5'' ''anthropic'' ''PRE'',
                         ChunkEv ''Claude'' ''claude-sonnet-4-5'' ''anthropic'' ''hi'', CompleteEv]"
    by (simp add: POST_def validate_def start_def run_participants_foldl prefill_req_def
                  strict_env_def run_defs example_defs anthropic_request_def
                  anthropic_message_of_def has_files_def attributed_content_def
                  delta_text_of_def is_thinking_delta_def)
qed







text \<open>
  C4, as amended. \<^verbatim>\<open>POST\<close> answers with the HTTP 400 JSON error exactly when the
  participants list is missing or empty, or a participant has provider \<^verbatim>\<open>"openai"\<close> and
  the OpenAI key is absent or empty, or a participant has provider \<^verbatim>\<open>"anthropic"\<close> and
  the Anthropic key is absent or empty. A request failing none of these conditions is
  answered with the event stream exactly when its body carries the messages array, and
  with an HTTP 500 JSON error otherwise. The kinds of response are distinct, so a request
  answered with an error status has no streaming body.
\<close>

theorem rejected_iff:
  "((\<exists>msg. POST e req = JsonError 400 msg) \<longleftrightarrow> spec_rejected req)
   \<and> ((\<exists>evs. POST e req = EventStream evs) \<longleftrightarrow>
        \<not> spec_rejected req \<and> (\<exists>msgs. messages req = Present msgs))
   \<and> ((\<exists>msg. POST e req = JsonError 500 msg) \<longleftrightarrow>
        \<not> spec_rejected req \<and> (messages req = Undefined \<or> messages req = Null))"
proof -
  have v: "(\<exists>msg. validate req = Inl msg) \<longleftrightarrow> spec_rejected req"
    by (auto simp: validate_def spec_rejected_def needsOpenAI_def needsAnthropic_def
                   list_ex_iff split: option.splits)
  show ?thesis
  proof (cases "validate req")
    case (Inl msg)
    with v have "spec_rejected req" by blast
    with Inl show ?thesis by (simp add: POST_def)
  next
    case (Inr ps)
    with v have "\<not> spec_rejected req" by auto
    with Inr show ?thesis
      by (cases "messages req") (simp_all add: POST_def)
  qed
qed

theorem rejected_iff_witness:
  "spec_rejected (base_req\<lparr>participants := Some [gpt]\<rparr>)
   \<and> (\<exists>msg. POST hi_env (base_req\<lparr>participants := Some [gpt]\<rparr>) = JsonError 400 msg)
   \<and> \<not> spec_rejected duo_req
   \<and> messages duo_req = Present [hello]
   \<and> (\<exists>evs. POST hi_env duo_req = EventStream evs)
   \<and> \<not> spec_rejected (duo_req\<lparr>messages := Undefined\<rparr>)
   \<and> (\<exists>msg. POST hi_env (duo_req\<lparr>messages := Undefined\<rparr>) = JsonError 500 msg)"
proof -
  have a: "spec_rejected (base_req\<lparr>participants := Some [gpt]\<rparr>)"
    by (simp add: spec_rejected_def base_req_def gpt_def truthy_str_def)
  have b: "\<not> spec_rejected duo_req"
    by (simp add: spec_rejected_def duo_req_def base_req_def gpt_def claude_def truthy_str_def)
  have m: "messages duo_req = Present [hello]"
    by (simp add: duo_req_def base_req_def)
  have c: "\<not> spec_rejected (duo_req\<lparr>messages := Undefined\<rparr>)"
    by (simp add: spec_rejected_def duo_req_def base_req_def gpt_def claude_def truthy_str_def)
  have u: "messages (duo_req\<lparr>messages := Undefined\<rparr>) = Undefined"
    by simp
  from a b m c u rejected_iff [of hi_env "base_req\<lparr>participants := Some [gpt]\<rparr>"]
    rejected_iff [of hi_env duo_req]
    rejected_iff [of hi_env "duo_req\<lparr>messages := Undefined\<rparr>"]
  show ?thesis by blast
qed

text \<open>
  C4 as stated fails: a body with a participant and its key, and without the messages
  array, meets none of the three conditions, and is answered with HTTP 500, not with a
  stream.
\<close>

theorem missing_messages_counterexample:
  "\<not> spec_rejected (duo_req\<lparr>messages := Undefined\<rparr>)
   \<and> POST hi_env (duo_req\<lparr>messages := Undefined\<rparr>)
       = JsonError 500 (read_error ''undefined'' ''filter'')
   \<and> read_error ''undefined'' ''filter''
       = ''Cannot read properties of undefined (reading '' @ [CHR 0x27] @ ''filter'' @ [CHR 0x27] @ '')''
   \<and> \<not> (\<exists>evs. POST hi_env (duo_req\<lparr>messages := Undefined\<rparr>) = EventStream evs)"
  by (simp add: spec_rejected_def POST_def validate_def duo_req_def base_req_def gpt_def
                claude_def needsOpenAI_def needsAnthropic_def truthy_str_def read_error_def)



text \<open>
  C6, as amended. With thinking enabled, the budget sent is the participant's own
  \<^verbatim>\<open>anthropic.budgetTokens\<close> when set; when unset it is the lesser of the request's
  \<^verbatim>\<open>budgetTokens\<close> (2000 when that is unset or zero) and the participant's \<^verbatim>\<open>maxTokens\<close>
  (32000 when unset or zero) less 100. With thinking disabled no budget is sent and the
  temperature is the participant's own, or 0.9 when it has none.
\<close>

theorem budget_and_temperature_layering:
  "(useThinking p reqThinking \<longrightarrow>
      (\<forall>a b. anthropic p = Some a \<and> budgetTokens a = Some b \<longrightarrow>
         ar_thinking (anthropicReq p msgs sys reqThinking reqBudget) = Some b)
    \<and> (anthropic p = None \<or> (\<exists>a. anthropic p = Some a \<and> budgetTokens a = None) \<longrightarrow>
         ar_thinking (anthropicReq p msgs sys reqThinking reqBudget) =
           Some (min (case reqBudget of None \<Rightarrow> 2000 | Some r \<Rightarrow> if r = 0 then 2000 else r)
                     ((case maxTokens p of None \<Rightarrow> 32000 | Some m \<Rightarrow> if m = 0 then 32000 else m)
                      - 100))))
   \<and> (\<not> useThinking p reqThinking \<longrightarrow>
        ar_thinking (anthropicReq p msgs sys reqThinking reqBudget) = None
      \<and> ar_temperature (anthropicReq p msgs sys reqThinking reqBudget) =
          (case temperature p of None \<Rightarrow> 9 / 10 | Some t \<Rightarrow> t))"
  by (auto simp: anthropicReq_def thinkBudget_def or_num_def split: option.splits)

theorem budget_and_temperature_layering_witness:
  "useThinking claude (Some True)
   \<and> anthropic claude = None
   \<and> ar_thinking (anthropicReq claude [] [] (Some True) (Some 5000)) = Some 5000
   \<and> \<not> useThinking claude None
   \<and> ar_temperature (anthropicReq claude [] [] None None) = 1 / 2"
proof -
  have h1: "useThinking claude (Some True)"
    by (simp add: useThinking_def truthy_bool_def claude_def)
  have h2: "anthropic claude = None" by (simp add: claude_def)
  have h3: "\<not> useThinking claude None"
    by (simp add: useThinking_def truthy_bool_def claude_def)
  have m: "maxTokens claude = Some 64000" "temperature claude = Some (1 / 2)"
    by (simp_all add: claude_def)
  from h1 h2 budget_and_temperature_layering [of claude "Some True" "[]" "[]" "Some 5000"]
  have a: "ar_thinking (anthropicReq claude [] [] (Some True) (Some 5000)) = Some 5000"
    by (simp add: m)
  from h3 budget_and_temperature_layering [of claude None "[]" "[]" None]
  have b: "ar_temperature (anthropicReq claude [] [] None None) = 1 / 2"
    by (simp add: m)
  from h1 h2 h3 a b show ?thesis by blast
qed

text \<open>
  C6 as stated fails: a participant without a budget of its own, with a ceiling of 64000
  tokens, in a request whose \<^verbatim>\<open>budgetTokens\<close> is 5000 and which enables thinking, is
  sent with budget 5000, not with the lesser of 2000 and 63900; and its temperature of 0.5
  does not reach the provider.
\<close>

theorem fixed_fallback_counterexample:
  "Option.bind (anthropic claude) budgetTokens = None
   \<and> ar_thinking (anthropicReq claude [] [] (Some True) (Some 5000)) = Some 5000
   \<and> spec_thinkBudget claude = 2000
   \<and> ar_thinking (anthropicReq claude [] [] (Some True) (Some 5000)) \<noteq> Some (spec_thinkBudget claude)
   \<and> temperature claude = Some (1 / 2)
   \<and> ar_temperature (anthropicReq claude [] [] (Some True) (Some 5000)) \<noteq> 1 / 2"
  by (simp add: anthropicReq_def useThinking_def truthy_bool_def thinkBudget_def or_num_def
                spec_thinkBudget_def claude_def)

text \<open>
  C7, as amended. In the request either adapter builds from the history of a run, the
  message at each position comes from the turn at that position: an assistant turn with a
  non-empty attribution is sent as \<^verbatim>\<open>[name]: content\<close>, whoever the current participant is;
  an assistant turn without one is sent with its content alone; a user turn is sent with its
  content unprefixed (for Anthropic as plain text or as the first block before its images).
  The only assistant message without a prefix that the Anthropic adapter adds is the
  prefill turn at the end.
\<close>

theorem attributed_turns_prefixed:
  assumes "h = history_passed ctx (processedMessages msgs) i" and "k < length h"
  shows "(\<forall>r. anthropic_request p h sys prefill isLast reqThinking reqBudget = Inr r \<longrightarrow>
            (\<exists>ms. ar_messages r =
                     ms @ (if truthy_str prefill \<and> isLast
                           then [\<lparr>am_role = Assistant, am_content = Plain (or_str prefill [])\<rparr>]
                           else [])
                 \<and> length ms = length h
                 \<and> (case role (h ! k) of
                      Assistant \<Rightarrow>
                        ms ! k = \<lparr>am_role = Assistant,
                                  am_content = Plain (if truthy_str (attribution (h ! k))
                                     then ''['' @ or_str (attribution (h ! k)) [] @ '']: '' @ content (h ! k)
                                     else content (h ! k))\<rparr>
                    | User \<Rightarrow>
                        am_role (ms ! k) = User
                        \<and> (am_content (ms ! k) = Plain (content (h ! k))
                           \<or> (\<exists>bs. am_content (ms ! k) = Blocks (TextBlock (content (h ! k)) # bs))))))
       \<and> length (oc_input (openaiConfig q (openai_input_of h) sys)) = length h
       \<and> oc_input (openaiConfig q (openai_input_of h) sys) ! k =
           (case role (h ! k) of
              Assistant \<Rightarrow>
                \<lparr>om_role = Assistant,
                 om_content = OutputString (if truthy_str (attribution (h ! k))
                    then ''['' @ or_str (attribution (h ! k)) [] @ '']: '' @ content (h ! k)
                    else content (h ! k))\<rparr>
            | User \<Rightarrow> \<lparr>om_role = User, om_content = InputText (content (h ! k))\<rparr>)"
proof (intro conjI allI impI)
  fix r assume r: "anthropic_request p h sys prefill isLast reqThinking reqBudget = Inr r"
  then obtain ms where ms: "anthropicMessages_of h = Inr ms"
    and ar: "ar_messages r =
               ms @ (if truthy_str prefill \<and> isLast
                     then [\<lparr>am_role = Assistant, am_content = Plain (or_str prefill [])\<rparr>]
                     else [])"
    by (auto simp: anthropic_request_def split: sum.splits if_splits)
  from anthropicMessages_nth [OF ms] assms(2)
  have len: "length ms = length h" and mk: "anthropic_message_of (h ! k) = Inr (ms ! k)"
    by simp_all
  have "case role (h ! k) of
          Assistant \<Rightarrow>
            ms ! k = \<lparr>am_role = Assistant,
                      am_content = Plain (if truthy_str (attribution (h ! k))
                         then ''['' @ or_str (attribution (h ! k)) [] @ '']: '' @ content (h ! k)
                         else content (h ! k))\<rparr>
        | User \<Rightarrow>
            am_role (ms ! k) = User
            \<and> (am_content (ms ! k) = Plain (content (h ! k))
               \<or> (\<exists>bs. am_content (ms ! k) = Blocks (TextBlock (content (h ! k)) # bs)))"
  proof (cases "role (h ! k)")
    case Assistant
    with mk anthropic_message_assistant [of "h ! k"] show ?thesis
      by (simp add: attributed_content_def)
  next
    case User
    have "h ! k \<in> set (history_passed ctx (processedMessages msgs) i)"
      using assms by simp
    from user_turns_unattributed [OF this User] have "attribution (h ! k) = None" .
    from anthropic_message_user [OF User this mk] User show ?thesis by simp
  qed
  with ar len show "\<exists>ms. ar_messages r =
                     ms @ (if truthy_str prefill \<and> isLast
                           then [\<lparr>am_role = Assistant, am_content = Plain (or_str prefill [])\<rparr>]
                           else [])
                 \<and> length ms = length h
                 \<and> (case role (h ! k) of
                      Assistant \<Rightarrow>
                        ms ! k = \<lparr>am_role = Assistant,
                                  am_content = Plain (if truthy_str (attribution (h ! k))
                                     then ''['' @ or_str (attribution (h ! k)) [] @ '']: '' @ content (h ! k)
                                     else content (h ! k))\<rparr>
                    | User \<Rightarrow>
                        am_role (ms ! k) = User
                        \<and> (am_content (ms ! k) = Plain (content (h ! k))
                           \<or> (\<exists>bs. am_content (ms ! k) = Blocks (TextBlock (content (h ! k)) # bs))))"
    by blast
next
  show "length (oc_input (openaiConfig q (openai_input_of h) sys)) = length h"
    by (simp add: openaiConfig_def openai_input_of_def)
next
  show "oc_input (openaiConfig q (openai_input_of h) sys) ! k =
           (case role (h ! k) of
              Assistant \<Rightarrow>
                \<lparr>om_role = Assistant,
                 om_content = OutputString (if truthy_str (attribution (h ! k))
                    then ''['' @ or_str (attribution (h ! k)) [] @ '']: '' @ content (h ! k)
                    else content (h ! k))\<rparr>
            | User \<Rightarrow> \<lparr>om_role = User, om_content = InputText (content (h ! k))\<rparr>)"
    using assms(2)
    by (simp add: openaiConfig_def openai_input_of_def openai_message_of_def attributed_content_def
             split: role.splits)
qed


theorem attributed_turns_prefixed_witness:
  "history_passed (run_ctx_of hi_env duo_req [gpt, claude]) (processedMessages [hello]) (Suc 0)
     = processedMessages [hello] @ [reply_turn gpt ''hi'']
   \<and> Suc 0 < length (history_passed (run_ctx_of hi_env duo_req [gpt, claude])
                                     (processedMessages [hello]) (Suc 0))
   \<and> oc_input (openaiConfig gpt
        (openai_input_of (history_passed (run_ctx_of hi_env duo_req [gpt, claude])
                                         (processedMessages [hello]) (Suc 0))) []) ! Suc 0
     = \<lparr>om_role = Assistant, om_content = OutputString ''[GPT-5]: hi''\<rparr>"
proof -
  let ?h = "history_passed (run_ctx_of hi_env duo_req [gpt, claude]) (processedMessages [hello]) (Suc 0)"
  have h: "?h = processedMessages [hello] @ [reply_turn gpt ''hi'']"
    by (simp add: history_passed_def state_before_Suc state_before_0 run_defs example_defs
                  reply_turn_def)
  have k: "Suc 0 < length ?h"
    by (simp add: h) (simp add: processedMessages_def example_defs)
  have t: "?h ! Suc 0 = reply_turn gpt ''hi''"
    by (simp add: h) (simp add: processedMessages_def example_defs)
  note a = attributed_turns_prefixed [OF refl k, of gpt "[]" None False None None gpt,
               THEN conjunct2, THEN conjunct2]
  have "oc_input (openaiConfig gpt (openai_input_of ?h) []) ! Suc 0
          = \<lparr>om_role = Assistant, om_content = OutputString ''[GPT-5]: hi''\<rparr>"
    unfolding a t by (simp add: reply_turn_def truthy_str_def or_str_def gpt_def)
  with h k show ?thesis by blast
qed

text \<open>
  C7 as stated fails: a turn that the current participant itself produced earlier is sent
  back to it with its own name in brackets, by both adapters.
\<close>

theorem own_turn_prefixed_counterexample:
  "anthropic_request claude [reply_turn claude ''hello''] [] None True None None
     = Inr (anthropicReq claude [\<lparr>am_role = Assistant, am_content = Plain ''[Claude]: hello''\<rparr>]
                          [] None None)
   \<and> oc_input (openaiConfig gpt (openai_input_of [reply_turn gpt ''hello'']) [])
     = [\<lparr>om_role = Assistant, om_content = OutputString ''[GPT-5]: hello''\<rparr>]
   \<and> spec_sent_text claude (reply_turn claude ''hello'') = ''hello''
   \<and> spec_sent_text gpt (reply_turn gpt ''hello'') = ''hello''
   \<and> ''[Claude]: hello'' \<noteq> spec_sent_text claude (reply_turn claude ''hello'')
   \<and> ''[GPT-5]: hello'' \<noteq> spec_sent_text gpt (reply_turn gpt ''hello'')"
  by (simp add: anthropic_request_def anthropic_message_of_def attributed_content_def
                has_files_def reply_turn_def truthy_str_def or_str_def openaiConfig_def
                openai_input_of_def openai_message_of_def spec_sent_text_def claude_def gpt_def)

text \<open>
  C8. A participant whose provider is neither \<^verbatim>\<open>"openai"\<close> nor \<^verbatim>\<open>"anthropic"\<close> puts no
  requirement on the request: validation passes exactly when the keys needed by the other
  participants are there. Its iteration of the loop leaves the state as it was (no event,
  nothing appended to the history), and the loop goes on with the next index.
\<close>

theorem unknown_provider_skipped:
  assumes "participants req = Some ps" and "i < length ps"
    and "provider (ps ! i) \<noteq> ''openai''" and "provider (ps ! i) \<noteq> ''anthropic''"
  shows "(validate req = Inr ps \<longleftrightarrow>
            (needsOpenAI (take i ps @ drop (Suc i) ps) \<longrightarrow> truthy_str (openaiKey req))
          \<and> (needsAnthropic (take i ps @ drop (Suc i) ps) \<longrightarrow> truthy_str (anthropicKey req)))
       \<and> participant_step (run_ctx_of e req ps) i st = st
       \<and> run_participants (run_ctx_of e req ps) i st =
           run_participants (run_ctx_of e req ps) (Suc i) st"
proof -
  have ne: "ps \<noteq> []" using assms(2) by auto
  have 1: "validate req = Inr ps \<longleftrightarrow>
            (needsOpenAI (take i ps @ drop (Suc i) ps) \<longrightarrow> truthy_str (openaiKey req))
          \<and> (needsAnthropic (take i ps @ drop (Suc i) ps) \<longrightarrow> truthy_str (anthropicKey req))"
    using assms(1) ne needs_without_other [OF assms(2,3,4)] by (simp add: validate_Inr_iff)
  have "\<not> invoked (run_ctx_of e req ps) i"
    using assms(3,4) by (simp add: invoked_def)
  then have 2: "participant_step (run_ctx_of e req ps) i st = st"
    by (simp add: participant_step_def dispatch_not_invoked)
  have 3: "run_participants (run_ctx_of e req ps) i st =
           run_participants (run_ctx_of e req ps) (Suc i) st"
    using assms(2) 2 by (subst run_participants.simps) simp
  from 1 2 3 show ?thesis by blast
qed


theorem unknown_provider_skipped_witness:
  "participants (base_req\<lparr>participants := Some [gemini]\<rparr>) = Some [gemini]
   \<and> 0 < length [gemini]
   \<and> provider ([gemini] ! 0) \<noteq> ''openai'' \<and> provider ([gemini] ! 0) \<noteq> ''anthropic''
   \<and> validate (base_req\<lparr>participants := Some [gemini]\<rparr>) = Inr [gemini]
   \<and> POST hi_env (base_req\<lparr>participants := Some [gemini]\<rparr>) = EventStream [CompleteEv]"
proof -
  let ?req = "base_req\<lparr>participants := Some [gemini]\<rparr>"
  have h1: "participants ?req = Some [gemini]" by simp
  have h2: "0 < length [gemini]" by simp
  have h3: "provider ([gemini] ! 0) \<noteq> ''openai''" by (simp add: gemini_def)
  have h4: "provider ([gemini] ! 0) \<noteq> ''anthropic''" by (simp add: gemini_def)
  note u = unknown_provider_skipped [OF h1 h2 h3 h4, of hi_env "initial_state (processedMessages [hello])"]
  have v: "validate ?req = Inr [gemini]"
    using u by (simp add: needsOpenAI_def needsAnthropic_def)
  have "run_participants (run_ctx_of hi_env ?req [gemini]) 0 (initial_state (processedMessages [hello]))
        = initial_state (processedMessages [hello])"
    using u by (simp add: run_participants.simps [of _ "Suc 0"])
  then have "POST hi_env ?req = EventStream [CompleteEv]"
    using v by (simp add: POST_def start_def initial_state_def flush_def base_req_def)
  with h1 h2 h3 h4 v show ?thesis by blast
qed

text \<open>
  C9. For an Anthropic participant that is not the last, in a run with a non-empty prefill,
  whose call completes: the turn appended to the history has as its content the prefill
  followed by the text that the same step appends in a run without prefill, so it begins
  with the prefill; the events emitted are those of the run without prefill; and the
  request built is the one built without prefill, its messages being the mapped history
  alone.
\<close>

theorem prefill_leaks_into_history:
  assumes "Suc i < length (ctx_participants ctx)"
    and "provider (ctx_participants ctx ! i) = ''anthropic''"
    and "ctx_anthropic ctx = Some client"
    and "ctx_prefillContent ctx = Some pre" and "pre \<noteq> []"
    and "fst (dispatch ctx i st) = None"
  shows "(\<exists>r. conversationHistory (participant_step ctx i st) =
                conversationHistory st
                @ [\<lparr>role = Assistant, content = pre @ r,
                    attribution = Some (name (ctx_participants ctx ! i)),
                    attachedFiles = None,
                    participant_name = Some (name (ctx_participants ctx ! i))\<rparr>]
            \<and> conversationHistory (participant_step (ctx\<lparr>ctx_prefillContent := None\<rparr>) i st) =
                conversationHistory st
                @ [\<lparr>role = Assistant, content = r,
                    attribution = Some (name (ctx_participants ctx ! i)),
                    attachedFiles = None,
                    participant_name = Some (name (ctx_participants ctx ! i))\<rparr>])
       \<and> prefix pre (content (last (conversationHistory (participant_step ctx i st))))
       \<and> events (participant_step ctx i st) =
           events (participant_step (ctx\<lparr>ctx_prefillContent := None\<rparr>) i st)
       \<and> (\<forall>h sys. anthropic_request (ctx_participants ctx ! i) h sys (ctx_prefillContent ctx)
                     (i = length (ctx_participants ctx) - 1)
                     (ctx_extendedThinking ctx) (ctx_budgetTokens ctx) =
                   anthropic_request (ctx_participants ctx ! i) h sys None
                     (i = length (ctx_participants ctx) - 1)
                     (ctx_extendedThinking ctx) (ctx_budgetTokens ctx))
       \<and> (\<forall>h sys r. anthropic_request (ctx_participants ctx ! i) h sys (ctx_prefillContent ctx)
                       (i = length (ctx_participants ctx) - 1)
                       (ctx_extendedThinking ctx) (ctx_budgetTokens ctx) = Inr r
                     \<longrightarrow> anthropicMessages_of h = Inr (ar_messages r))"
proof -
  let ?p = "ctx_participants ctx ! i"
  let ?ctx0 = "ctx\<lparr>ctx_prefillContent := None\<rparr>"
  let ?sys = "generateSystemPrompt ?p (take i (ctx_participants ctx) @ drop (Suc i) (ctx_participants ctx))
                (ctx_systemPrompt ctx)"
  have nl: "(i = length (ctx_participants ctx) - 1) = False" using assms(1) by auto
  have d: "dispatch ctx i st =
             handleAnthropicParticipant ?p (client i) ?sys (Some pre) False
               (ctx_extendedThinking ctx) (ctx_budgetTokens ctx) st"
    using assms(2,3,4) nl by (simp add: dispatch_def Let_def)
  have d0: "dispatch ?ctx0 i st =
             handleAnthropicParticipant ?p (client i) ?sys None False
               (ctx_extendedThinking ctx) (ctx_budgetTokens ctx) st"
    using assms(2,3) nl by (simp add: dispatch_def Let_def)
  from assms(6) d obtain r chunks where
    rq: "anthropic_request ?p (conversationHistory st) ?sys None False
           (ctx_extendedThinking ctx) (ctx_budgetTokens ctx) = Inr r"
    and resp: "client i r = Streamed chunks None"
    by (auto simp: handleAnthropicParticipant_def anthropic_request_not_last [of _ _ _ "Some pre"]
                   anthropic_consume_eq Let_def
             split: sum.splits provider_response.splits option.splits)
  have s: "participant_step ctx i st =
             push_reply ?p (pre @ anthropic_text chunks)
               (st\<lparr>events := events st @ anthropic_events ?p chunks\<rparr>)"
    using rq resp assms(5)
    by (simp add: participant_step_def d handleAnthropicParticipant_def
                  anthropic_request_not_last [of _ _ _ "Some pre"] anthropic_consume_eq
                  or_str_def)
  have s0: "participant_step ?ctx0 i st =
             push_reply ?p (anthropic_text chunks)
               (st\<lparr>events := events st @ anthropic_events ?p chunks\<rparr>)"
    using rq resp
    by (simp add: participant_step_def d0 handleAnthropicParticipant_def anthropic_consume_eq
                  or_str_def truthy_str_def)
  have 1: "\<exists>r. conversationHistory (participant_step ctx i st) =
                conversationHistory st
                @ [\<lparr>role = Assistant, content = pre @ r, attribution = Some (name ?p),
                    attachedFiles = None, participant_name = Some (name ?p)\<rparr>]
            \<and> conversationHistory (participant_step ?ctx0 i st) =
                conversationHistory st
                @ [\<lparr>role = Assistant, content = r, attribution = Some (name ?p),
                    attachedFiles = None, participant_name = Some (name ?p)\<rparr>]"
    by (rule exI [of _ "anthropic_text chunks"]) (simp add: s s0 reply_turn_def)
  have 2: "prefix pre (content (last (conversationHistory (participant_step ctx i st))))"
    by (simp add: s reply_turn_def)
  have 3: "events (participant_step ctx i st) = events (participant_step ?ctx0 i st)"
    by (simp add: s s0)
  have 4: "\<forall>h sys. anthropic_request ?p h sys (ctx_prefillContent ctx)
                     (i = length (ctx_participants ctx) - 1)
                     (ctx_extendedThinking ctx) (ctx_budgetTokens ctx) =
                   anthropic_request ?p h sys None
                     (i = length (ctx_participants ctx) - 1)
                     (ctx_extendedThinking ctx) (ctx_budgetTokens ctx)"
    unfolding nl by (simp add: anthropic_request_not_last [of _ _ _ "ctx_prefillContent ctx"])
  have 5: "\<forall>h sys r. anthropic_request ?p h sys (ctx_prefillContent ctx)
                       (i = length (ctx_participants ctx) - 1)
                       (ctx_extendedThinking ctx) (ctx_budgetTokens ctx) = Inr r
                     \<longrightarrow> anthropicMessages_of h = Inr (ar_messages r)"
    unfolding nl by (auto simp: anthropic_request_def split: sum.splits)
  from 1 2 3 4 5 show ?thesis by blast
qed

theorem prefill_leaks_into_history_witness:
  "Suc 0 < length (ctx_participants (run_ctx_of hi_env (prefill_req [claude, gpt]) [claude, gpt]))
   \<and> provider (ctx_participants (run_ctx_of hi_env (prefill_req [claude, gpt]) [claude, gpt]) ! 0)
       = ''anthropic''
   \<and> ctx_anthropic (run_ctx_of hi_env (prefill_req [claude, gpt]) [claude, gpt])
       = Some (anthropic_api hi_env ''ak'')
   \<and> ctx_prefillContent (run_ctx_of hi_env (prefill_req [claude, gpt]) [claude, gpt]) = Some ''PRE''
   \<and> ''PRE'' \<noteq> []
   \<and> fst (dispatch (run_ctx_of hi_env (prefill_req [claude, gpt]) [claude, gpt]) 0
             (initial_state (processedMessages [hello]))) = None
   \<and> prefix ''PRE''
        (content (last (conversationHistory
           (participant_step (run_ctx_of hi_env (prefill_req [claude, gpt]) [claude, gpt]) 0
              (initial_state (processedMessages [hello]))))))
   \<and> events (participant_step (run_ctx_of hi_env (prefill_req [claude, gpt]) [claude, gpt]) 0
                (initial_state (processedMessages [hello])))
       = events (participant_step
                   ((run_ctx_of hi_env (prefill_req [claude, gpt]) [claude, gpt])
                      \<lparr>ctx_prefillContent := None\<rparr>) 0
                   (initial_state (processedMessages [hello])))
   \<and> events (participant_step (run_ctx_of hi_env (prefill_req [claude, gpt]) [claude, gpt]) 0
                (initial_state (processedMessages [hello])))
       = [ChunkEv ''Claude'' ''claude-sonnet-4-5'' ''anthropic'' ''hi'']
   \<and> conversationHistory
         (participant_step (run_ctx_of hi_env (prefill_req [claude, gpt]) [claude, gpt]) 0
            (initial_state (processedMessages [hello])))
       = [\<lparr>role = User, content = ''hello'', attribution = None, attachedFiles = None,
           participant_name = None\<rparr>,
          \<lparr>role = Assistant, content = ''PREhi'', attribution = Some ''Claude'',
           attachedFiles = None, participant_name = Some ''Claude''\<rparr>]
   \<and> conversationHistory
         (participant_step ((run_ctx_of hi_env (prefill_req [claude, gpt]) [claude, gpt])
                              \<lparr>ctx_prefillContent := None\<rparr>) 0
            (initial_state (processedMessages [hello])))
       = [\<lparr>role = User, content = ''hello'', attribution = None, attachedFiles = None,
           participant_name = None\<rparr>,
          \<lparr>role = Assistant, content = ''hi'', attribution = Some ''Claude'',
           attachedFiles = None, participant_name = Some ''Claude''\<rparr>]"
proof -
  let ?ctx = "run_ctx_of hi_env (prefill_req [claude, gpt]) [claude, gpt]"
  let ?st = "initial_state (processedMessages [hello])"
  have h1: "Suc 0 < length (ctx_participants ?ctx)" by simp
  have h2: "provider (ctx_participants ?ctx ! 0) = ''anthropic''" by (simp add: claude_def)
  have h3: "ctx_anthropic ?ctx = Some (anthropic_api hi_env ''ak'')"
    by (simp add: run_ctx_of_def prefill_req_def needsAnthropic_def example_defs)
  have h4: "ctx_prefillContent ?ctx = Some ''PRE''"
    by (simp add: run_ctx_of_def prefill_req_def)
  have h5: "''PRE'' \<noteq> []" by simp
  have h6: "fst (dispatch ?ctx 0 ?st) = None"
    by (simp add: prefill_req_def run_defs example_defs anthropic_request_def
                  anthropic_message_of_def has_files_def attributed_content_def
                  delta_text_of_def is_thinking_delta_def)
  have c: "conversationHistory (participant_step ?ctx 0 ?st)
       = [\<lparr>role = User, content = ''hello'', attribution = None, attachedFiles = None,
           participant_name = None\<rparr>,
          \<lparr>role = Assistant, content = ''PREhi'', attribution = Some ''Claude'',
           attachedFiles = None, participant_name = Some ''Claude''\<rparr>]"
    by (simp add: prefill_req_def run_defs example_defs anthropic_request_def
                  anthropic_message_of_def has_files_def attributed_content_def
                  delta_text_of_def is_thinking_delta_def reply_turn_def)
  have c0: "conversationHistory (participant_step (?ctx\<lparr>ctx_prefillContent := None\<rparr>) 0 ?st)
       = [\<lparr>role = User, content = ''hello'', attribution = None, attachedFiles = None,
           participant_name = None\<rparr>,
          \<lparr>role = Assistant, content = ''hi'', attribution = Some ''Claude'',
           attachedFiles = None, participant_name = Some ''Claude''\<rparr>]"
    by (simp add: prefill_req_def run_defs example_defs anthropic_request_def
                  anthropic_message_of_def has_files_def attributed_content_def
                  delta_text_of_def is_thinking_delta_def reply_turn_def)
  have e: "events (participant_step ?ctx 0 ?st)
       = [ChunkEv ''Claude'' ''claude-sonnet-4-5'' ''anthropic'' ''hi'']"
    by (simp add: prefill_req_def run_defs example_defs anthropic_request_def
                  anthropic_message_of_def has_files_def attributed_content_def
                  delta_text_of_def is_thinking_delta_def reply_turn_def)
  from h1 h2 h3 h4 h5 h6 c c0 e prefill_leaks_into_history [OF h1 h2 h3 h4 h5 h6]
  show ?thesis by blast
qed



end
